theory Spec2Isabelle
  imports Main "HOL-Library.Char_ord" "HOL-Library.List_Lexorder" "HOL-Library.Option_ord"
    "HOL-Library.Sublist" "HOL-Library.Multiset"
begin

section \<open>Staffly: accounts, guards and the user directory\<close>

text \<open>
  A shallow embedding of the Staffly accounts application: the user model
  (\<^verbatim>\<open>accounts/models.py\<close>), its manager (\<^verbatim>\<open>accounts/managers.py\<close>), the guards
  (\<^verbatim>\<open>accounts/decorators.py\<close>, \<^verbatim>\<open>accounts/middleware.py\<close>), the forms and views
  (\<^verbatim>\<open>accounts/forms.py\<close>, \<^verbatim>\<open>accounts/views.py\<close>) and the role router
  (\<^verbatim>\<open>dashboard/views.py\<close>). A view is a function from a request and the server
  state to a response and the new state. The web framework the code calls into (query
  sets, form fields, the paginator, the authentication backend) is modelled by the
  definitions of the first subsections; password hashing and e-mail syntax checking are
  parameters.
\<close>

subsection \<open>Strings\<close>

text \<open>Strings are byte lists. \<^verbatim>\<open>str.startswith\<close>:\<close>

definition startswith :: "string \<Rightarrow> string \<Rightarrow> bool" where
  "startswith s p = (take (length p) s = p)"

text \<open>Letter case is folded on the ASCII letters, as SQLite's \<^verbatim>\<open>LIKE\<close> does.\<close>

definition lower_char :: "char \<Rightarrow> char" where
  "lower_char c =
     (case map_of (zip ''ABCDEFGHIJKLMNOPQRSTUVWXYZ'' ''abcdefghijklmnopqrstuvwxyz'') c of
        Some l \<Rightarrow> l
      | None \<Rightarrow> c)"

definition lower :: "string \<Rightarrow> string" where
  "lower s = map lower_char s"

text \<open>\<^verbatim>\<open>needle in hay\<close>: the needle starts at some position of the hay.\<close>

fun contains :: "string \<Rightarrow> string \<Rightarrow> bool" where
  "contains [] needle = (needle = [])"
| "contains (c # cs) needle = (startswith (c # cs) needle \<or> contains cs needle)"

text \<open>The \<^verbatim>\<open>__icontains\<close> lookup of a query set.\<close>

definition icontains :: "string \<Rightarrow> string \<Rightarrow> bool" where
  "icontains field_value needle = contains (lower field_value) (lower needle)"

text \<open>\<^verbatim>\<open>str.strip()\<close>, on the ASCII white space.\<close>

definition is_space :: "char \<Rightarrow> bool" where
  "is_space c = (c \<in> set [CHR '' '', CHR 0x09, CHR 0x0A, CHR 0x0B, CHR 0x0C, CHR 0x0D])"

definition strip :: "string \<Rightarrow> string" where
  "strip s = rev (dropWhile is_space (rev (dropWhile is_space s)))"

text \<open>
  \<^verbatim>\<open>s.rsplit('@', 1)\<close>: the text before the last \<^verbatim>\<open>@\<close> and the text after it, or
  nothing when \<open>s\<close> has no \<^verbatim>\<open>@\<close> (the tuple assignment then raises ValueError).
\<close>

definition rsplit_at :: "string \<Rightarrow> (string \<times> string) option" where
  "rsplit_at s =
     (if CHR ''@'' \<in> set s
      then Some (rev (tl (dropWhile (\<lambda>c. c \<noteq> CHR ''@'') (rev s))),
                 rev (takeWhile (\<lambda>c. c \<noteq> CHR ''@'') (rev s)))
      else None)"

subsection \<open>The user model\<close>

text \<open>
  One row of the users table: the fields of \<^verbatim>\<open>User\<close> and those it inherits
  (\<open>pk\<close>, \<open>password\<close>, \<open>last_login\<close>, \<open>is_superuser\<close>). Times are integers, in
  microseconds. The role is the stored text.
\<close>

record User =
  pk :: nat
  password :: string
  last_login :: "int option"
  is_superuser :: bool
  email :: string
  first_name :: string
  last_name :: string
  role :: string
  is_active :: bool
  is_staff :: bool
  phone :: string
  department :: string
  job_title :: string
  profile_picture :: "string option"
  bio :: string
  date_joined :: int
  updated_at :: int

text \<open>\<^verbatim>\<open>User.Role.choices\<close>, the stored values.\<close>

definition Role_choices :: "string list" where
  "Role_choices = [''ADMIN'', ''STAFF'', ''USER'']"

text \<open>
  The services of the framework that the model takes as parameters: the password hasher
  (\<^verbatim>\<open>make_password\<close>, \<^verbatim>\<open>check_password\<close>), the e-mail syntax validator of an
  \<^verbatim>\<open>EmailField\<close>, and whether the configured authentication backend lets an inactive
  user authenticate (the default backend does not).
\<close>

record framework =
  make_password :: "string option \<Rightarrow> string"
  check_password :: "string \<Rightarrow> string \<Rightarrow> bool"
  valid_email :: "string \<Rightarrow> bool"
  inactive_may_authenticate :: bool

subsection \<open>Requests, responses and the server state\<close>

datatype upload = Image string | Not_an_image string

record request =
  path :: string
  query_string :: string
  req_method :: string
  GET :: "string \<rightharpoonup> string"
  POST :: "string \<rightharpoonup> string"
  FILES :: "string \<rightharpoonup> upload"
  request_user :: "User option"

text \<open>\<open>request_user\<close> is \<^verbatim>\<open>request.user\<close>: \<open>None\<close> for the anonymous user.\<close>

datatype level = INFO | SUCCESS | ERROR

datatype exn = AttributeError | FieldError | KeyError | ValueError string | IntegrityError

text \<open>One page of a paginator, with the paginator's whole object list.\<close>

record page =
  object_list :: "User list"
  number :: nat
  num_pages :: nat
  per_page :: nat
  all_objects :: "User list"

text \<open>
  The errors of a form: those of the framework's fields, and the validation errors the
  application raises or configures, with their message.
\<close>

datatype form_error =
  Required string
  | Invalid string
  | Too_long string
  | Invalid_choice string
  | Message string

text \<open>What a view hands to its template.\<close>

datatype template_context =
  Form_errors "form_error list"
  | Unbound_form
  | User_obj User
  | User_list page string string string string nat nat nat

datatype response =
  Render string template_context
  | Redirect string
  | Redirect_to_login string
  | Not_found
  | Not_allowed
  | Raised exn

text \<open>
  The server state one request sees: the users table, the last primary key the table has
  handed out, the clock, the requester's session (the authenticated user's key and the
  expiry set on it), and the messages queued for the requester.
\<close>

record state =
  db :: "User list"
  pk_seq :: nat
  now :: int
  session_auth :: "nat option"
  session_expiry :: "int option"
  messages :: "(level \<times> string) list"

type_synonym view = "request \<Rightarrow> state \<Rightarrow> response \<times> state"

definition add_message :: "level \<Rightarrow> string \<Rightarrow> state \<Rightarrow> state" where
  "add_message l m s = s\<lparr>messages := messages s @ [(l, m)]\<rparr>"

text \<open>\<^verbatim>\<open>QueryDict.get(key, default)\<close>.\<close>

definition get_param :: "(string \<rightharpoonup> string) \<Rightarrow> string \<Rightarrow> string \<Rightarrow> string" where
  "get_param q k d = (case q k of None \<Rightarrow> d | Some v \<Rightarrow> v)"

text \<open>\<^verbatim>\<open>request.get_full_path()\<close>.\<close>

definition get_full_path :: "request \<Rightarrow> string" where
  "get_full_path r = (if query_string r = [] then path r else path r @ ''?'' @ query_string r)"

subsection \<open>The users table\<close>

text \<open>\<^verbatim>\<open>get(pk=...)\<close>, \<^verbatim>\<open>get(email=...)\<close>: the row, if there is one.\<close>

definition get_by_pk :: "User list \<Rightarrow> nat \<Rightarrow> User option" where
  "get_by_pk rows k = find (\<lambda>r. pk r = k) rows"


text \<open>The UPDATE of a row: every column of the row with the instance's key is written.\<close>

definition update_row :: "User \<Rightarrow> state \<Rightarrow> state" where
  "update_row u s = s\<lparr>db := map (\<lambda>r. if pk r = pk u then u else r) (db s)\<rparr>"

text \<open>
  \<^verbatim>\<open>instance.save()\<close> of a loaded instance: \<open>updated_at\<close> is set to the current
  time (\<^verbatim>\<open>auto_now\<close>) and the row with the instance's key is updated; a row that is
  gone is inserted again, under its key. The column \<open>email\<close> is \<^verbatim>\<open>unique=True\<close>:
  the table refuses the write, with IntegrityError, when another row holds the e-mail.
\<close>

definition save :: "User \<Rightarrow> state \<Rightarrow> exn + state" where
  "save u s =
     (let u' = u\<lparr>updated_at := now s\<rparr> in
      if list_ex (\<lambda>r. email r = email u' \<and> pk r \<noteq> pk u') (db s) then Inl IntegrityError
      else if list_ex (\<lambda>r. pk r = pk u') (db s) then Inr (update_row u' s)
      else Inr (s\<lparr>db := db s @ [u'], pk_seq := max (pk_seq s) (pk u')\<rparr>))"

text \<open>\<^verbatim>\<open>instance.delete()\<close>.\<close>

definition delete :: "User \<Rightarrow> state \<Rightarrow> state" where
  "delete u s = s\<lparr>db := filter (\<lambda>r. pk r \<noteq> pk u) (db s)\<rparr>"

subsection \<open>Guards: \<^verbatim>\<open>accounts/decorators.py\<close>\<close>

text \<open>
  The framework's \<^verbatim>\<open>login_required\<close>: an anonymous requester is redirected to the
  login URL, with the requested full path as \<^verbatim>\<open>next\<close>.
\<close>

definition login_required :: "view \<Rightarrow> view" where
  "login_required view_func request s =
     (case request_user request of
        None \<Rightarrow> (Redirect_to_login (get_full_path request), s)
      | Some u \<Rightarrow> view_func request s)"

text \<open>The framework's \<^verbatim>\<open>require_POST\<close>.\<close>

definition require_POST :: "view \<Rightarrow> view" where
  "require_POST view_func request s =
     (if req_method request = ''POST'' then view_func request s else (Not_allowed, s))"

text \<open>
  \<^verbatim>\<open>request.user.role\<close>: the anonymous user has no such attribute.
\<close>

definition user_role :: "request \<Rightarrow> exn + string" where
  "user_role request = (case request_user request of None \<Rightarrow> Inl AttributeError | Some u \<Rightarrow> Inr (role u))"

definition role_required :: "string list \<Rightarrow> view \<Rightarrow> view" where
  "role_required allowed_roles view_func =
     login_required (\<lambda>request s.
       case user_role request of
         Inl e \<Rightarrow> (Raised e, s)
       | Inr r \<Rightarrow>
           if r \<in> set allowed_roles then view_func request s
           else (Redirect ''dashboard:router'',
                 add_message ERROR ''You do not have permission to access this page.'' s))"

definition admin_required :: "view \<Rightarrow> view" where
  "admin_required view_func =
     login_required (\<lambda>request s.
       case user_role request of
         Inl e \<Rightarrow> (Raised e, s)
       | Inr r \<Rightarrow>
           if r = ''ADMIN'' then view_func request s
           else (Redirect ''dashboard:router'',
                 add_message ERROR ''Administrator access required.'' s))"

definition staff_required :: "view \<Rightarrow> view" where
  "staff_required view_func =
     login_required (\<lambda>request s.
       case user_role request of
         Inl e \<Rightarrow> (Raised e, s)
       | Inr r \<Rightarrow>
           if r \<in> set [''ADMIN'', ''STAFF''] then view_func request s
           else (Redirect ''dashboard:router'',
                 add_message ERROR ''Staff access required.'' s))"


subsection \<open>The role router: \<^verbatim>\<open>dashboard/views.py\<close>\<close>


subsection \<open>Middleware: \<^verbatim>\<open>accounts/middleware.py\<close>\<close>

definition ADMIN_ONLY_PATTERNS :: "string list" where
  "ADMIN_ONLY_PATTERNS = [''/users/'', ''/users/create/'', ''/users/delete/'', ''/analytics/'']"

definition STAFF_PATTERNS :: "string list" where
  "STAFF_PATTERNS = [''/staff/'']"

definition PUBLIC_PATTERNS :: "string list" where
  "PUBLIC_PATTERNS =
     [''/accounts/login/'', ''/accounts/logout/'', ''/static/'', ''/media/'', ''/admin/'']"

text \<open>
  \<^verbatim>\<open>RoleBasedAccessMiddleware.__call__\<close>. Each loop returns at the first pattern the
  path starts with (for the two role loops: when the role is not an allowed one).
\<close>

definition RoleBasedAccessMiddleware :: "view \<Rightarrow> view" where
  "RoleBasedAccessMiddleware get_response request s =
     (if list_ex (startswith (path request)) PUBLIC_PATTERNS then get_response request s
      else case request_user request of
        None \<Rightarrow> get_response request s
      | Some u \<Rightarrow>
          if list_ex (startswith (path request)) ADMIN_ONLY_PATTERNS \<and> role u \<noteq> ''ADMIN''
          then (Redirect ''dashboard:router'',
                add_message ERROR ''Administrator access required.'' s)
          else if list_ex (startswith (path request)) STAFF_PATTERNS
                  \<and> role u \<notin> set [''ADMIN'', ''STAFF'']
          then (Redirect ''dashboard:router'', add_message ERROR ''Staff access required.'' s)
          else get_response request s)"

definition timedelta_hours :: "int \<Rightarrow> int" where
  "timedelta_hours h = h * 3600000000"

text \<open>Minutes as a time difference, as \<open>timedelta_hours\<close> for hours.\<close>

definition timedelta_minutes :: "int \<Rightarrow> int" where
  "timedelta_minutes m = m * 60000000"

text \<open>
  \<^verbatim>\<open>save(update_fields=['last_login'])\<close>: only that column of the user's row is
  written.
\<close>

definition save_last_login :: "User \<Rightarrow> state \<Rightarrow> state" where
  "save_last_login u s =
     s\<lparr>db := map (\<lambda>r. if pk r = pk u then r\<lparr>last_login := last_login u\<rparr> else r) (db s)\<rparr>"

text \<open>
  \<^verbatim>\<open>UpdateLastLoginMiddleware.__call__\<close>. \<open>now s\<close> is \<^verbatim>\<open>timezone.now()\<close>: the clock
  does not advance while one request is handled.
\<close>

definition UpdateLastLoginMiddleware :: "view \<Rightarrow> view" where
  "UpdateLastLoginMiddleware get_response request s =
     (case request_user request of
        None \<Rightarrow> get_response request s
      | Some u \<Rightarrow>
          (case last_login u of
             Some t \<Rightarrow>
               if now s - t > timedelta_hours 1
               then get_response (request\<lparr>request_user := Some (u\<lparr>last_login := Some (now s)\<rparr>)\<rparr>)
                      (save_last_login (u\<lparr>last_login := Some (now s)\<rparr>) s)
               else get_response request s
           | None \<Rightarrow>
               get_response (request\<lparr>request_user := Some (u\<lparr>last_login := Some (now s)\<rparr>)\<rparr>)
                 (save_last_login (u\<lparr>last_login := Some (now s)\<rparr>) s)))"

subsection \<open>The manager: \<^verbatim>\<open>accounts/managers.py\<close>\<close>

text \<open>The framework's \<^verbatim>\<open>normalize_email\<close>: the domain part is lower-cased.\<close>

definition normalize_email :: "string option \<Rightarrow> string" where
  "normalize_email e =
     (let e' = (case e of None \<Rightarrow> [] | Some x \<Rightarrow> x) in
      case rsplit_at (strip e') of
        None \<Rightarrow> e'
      | Some (email_name, domain_part) \<Rightarrow> email_name @ ''@'' @ lower domain_part)"

text \<open>The keyword arguments a caller may pass besides the e-mail and the password.\<close>

record extra_fields =
  x_role :: "string option"
  x_is_active :: "bool option"
  x_is_staff :: "bool option"
  x_is_superuser :: "bool option"
  x_first_name :: "string option"
  x_last_name :: "string option"
  x_phone :: "string option"
  x_department :: "string option"
  x_job_title :: "string option"
  x_bio :: "string option"

definition or_default :: "'a option \<Rightarrow> 'a \<Rightarrow> 'a" where
  "or_default x d = (case x of None \<Rightarrow> d | Some v \<Rightarrow> v)"

text \<open>
  \<^verbatim>\<open>self.model(email=email, **extra_fields)\<close>: a new instance, every field not given at
  its default; \<open>date_joined\<close> defaults to the current time.
\<close>

definition model_init :: "string \<Rightarrow> extra_fields \<Rightarrow> state \<Rightarrow> User" where
  "model_init e x s =
     \<lparr>pk = 0, password = [], last_login = None,
      is_superuser = or_default (x_is_superuser x) False,
      email = e,
      first_name = or_default (x_first_name x) [],
      last_name = or_default (x_last_name x) [],
      role = or_default (x_role x) ''USER'',
      is_active = or_default (x_is_active x) True,
      is_staff = or_default (x_is_staff x) False,
      phone = or_default (x_phone x) [],
      department = or_default (x_department x) [],
      job_title = or_default (x_job_title x) [],
      profile_picture = None,
      bio = or_default (x_bio x) [],
      date_joined = now s, updated_at = now s\<rparr>"

text \<open>
  \<^verbatim>\<open>save()\<close> of a new instance: an INSERT. The column \<open>email\<close> is \<^verbatim>\<open>unique=True\<close>:
  the table refuses a row whose e-mail is that of a stored row, compared as the database
  compares text for equality.
\<close>

definition insert_row :: "User \<Rightarrow> state \<Rightarrow> exn + (User \<times> state)" where
  "insert_row u s =
     (if list_ex (\<lambda>r. email r = email u) (db s) then Inl IntegrityError
      else let u' = u\<lparr>pk := Suc (pk_seq s), updated_at := now s\<rparr>
           in Inr (u', s\<lparr>db := db s @ [u'], pk_seq := Suc (pk_seq s)\<rparr>))"

definition create_user ::
  "framework \<Rightarrow> string option \<Rightarrow> string option \<Rightarrow> extra_fields \<Rightarrow> state
     \<Rightarrow> exn + (User \<times> state)" where
  "create_user fw email_arg password_arg x s =
     (if email_arg = None \<or> email_arg = Some [] then Inl (ValueError ''The Email field must be set'')
      else
        let e = normalize_email email_arg;
            x1 = x\<lparr>x_role := Some (or_default (x_role x) ''USER'')\<rparr>;
            x2 = x1\<lparr>x_is_active := Some (or_default (x_is_active x1) True)\<rparr>;
            u = model_init e x2 s;
            u' = u\<lparr>password := make_password fw password_arg\<rparr>
        in insert_row u' s)"

definition create_superuser ::
  "framework \<Rightarrow> string option \<Rightarrow> string option \<Rightarrow> extra_fields \<Rightarrow> state
     \<Rightarrow> exn + (User \<times> state)" where
  "create_superuser fw email_arg password_arg x s =
     (let x1 = x\<lparr>x_role := Some (or_default (x_role x) ''ADMIN'')\<rparr>;
          x2 = x1\<lparr>x_is_active := Some (or_default (x_is_active x1) True)\<rparr>;
          x3 = x2\<lparr>x_is_staff := Some (or_default (x_is_staff x2) True)\<rparr>;
          x4 = x3\<lparr>x_is_superuser := Some (or_default (x_is_superuser x3) True)\<rparr>
      in if x_is_staff x4 \<noteq> Some True then Inl (ValueError ''Superuser must have is_staff=True.'')
         else if x_is_superuser x4 \<noteq> Some True
         then Inl (ValueError ''Superuser must have is_superuser=True.'')
         else create_user fw email_arg password_arg x4 s)"

subsection \<open>Form fields\<close>

text \<open>
  A \<^verbatim>\<open>CharField\<close>: the submitted text is stripped; an empty value is an error when
  the field is required; a value that is not empty goes through the validators, the
  maximal length and the one that refuses a NUL character.
\<close>

definition clean_char ::
  "string \<Rightarrow> nat option \<Rightarrow> bool \<Rightarrow> string option \<Rightarrow> form_error list \<times> string" where
  "clean_char name max_length required raw =
     (let v = strip (or_default raw []) in
      (if v = [] then (if required then [Required name] else [])
       else (if (case max_length of None \<Rightarrow> False | Some n \<Rightarrow> n < length v)
             then [Too_long name] else [])
            @ (if CHR 0x00 \<in> set v then [Invalid name] else []),
       v))"

text \<open>
  An \<^verbatim>\<open>EmailField\<close>: a required \<^verbatim>\<open>CharField\<close> with the e-mail validator
  first; \<open>valid_email\<close> stands for that validator. The field of a model form also
  takes the column's maximal length, 254.
\<close>

definition clean_email ::
  "framework \<Rightarrow> string \<Rightarrow> nat option \<Rightarrow> string option \<Rightarrow> form_error list \<times> string" where
  "clean_email fw name max_length raw =
     (let v = strip (or_default raw []) in
      (if v = [] then [Required name]
       else (if \<not> valid_email fw v then [Invalid name] else [])
            @ (if (case max_length of None \<Rightarrow> False | Some n \<Rightarrow> n < length v)
               then [Too_long name] else [])
            @ (if CHR 0x00 \<in> set v then [Invalid name] else []),
       v))"

text \<open>The choice field of \<open>role\<close>: required, one of the role choices.\<close>

definition clean_role :: "string option \<Rightarrow> form_error list \<times> string" where
  "clean_role raw =
     (let v = or_default raw [] in
      (if v = [] then [Required ''role'']
       else if v \<notin> set Role_choices then [Invalid_choice ''role'']
       else [],
       v))"

text \<open>A check box: unchecked when the key is absent, empty or \<^verbatim>\<open>false\<close>.\<close>

definition clean_checkbox :: "string option \<Rightarrow> bool" where
  "clean_checkbox raw =
     (case raw of None \<Rightarrow> False | Some v \<Rightarrow> v \<noteq> [] \<and> lower v \<noteq> ''false'')"

text \<open>
  The image field of \<open>profile_picture\<close>: with no upload the stored reference stays; an
  upload that is an image, under a name of at most 100 characters, is stored under
  \<^verbatim>\<open>profile_pictures/\<close>.
\<close>

definition clean_image ::
  "string \<Rightarrow> upload option \<Rightarrow> string option \<Rightarrow> form_error list \<times> string option" where
  "clean_image name file initial =
     (case file of
        None \<Rightarrow> ([], initial)
      | Some (Image n) \<Rightarrow>
          if n = [] then ([Invalid name], initial)
          else if 100 < length n then ([Too_long name], initial)
          else ([], Some (''profile_pictures/'' @ n))
      | Some (Not_an_image n) \<Rightarrow> ([Invalid name], initial))"

subsection \<open>Forms: \<^verbatim>\<open>accounts/forms.py\<close>\<close>







text \<open>
  \<^verbatim>\<open>AdminUserUpdateForm\<close>, bound to an instance: \<open>email\<close>, \<open>role\<close> and
  \<open>is_active\<close> are fields too. The unique check leaves the instance's own row out.
\<close>

definition AdminUserUpdateForm ::
  "framework \<Rightarrow> state \<Rightarrow> (string \<rightharpoonup> string) \<Rightarrow> (string \<rightharpoonup> upload) \<Rightarrow> User
     \<Rightarrow> form_error list \<times> User" where
  "AdminUserUpdateForm fw s data files instance =
     (let (e1, em) = clean_email fw ''email'' (Some 254) (data ''email'');
          (e2, fn) = clean_char ''first_name'' (Some 150) False (data ''first_name'');
          (e3, ln) = clean_char ''last_name'' (Some 150) False (data ''last_name'');
          (e4, ro) = clean_role (data ''role'');
          ac = clean_checkbox (data ''is_active'');
          (e5, ph) = clean_char ''phone'' (Some 20) False (data ''phone'');
          (e6, de) = clean_char ''department'' (Some 100) False (data ''department'');
          (e7, jo) = clean_char ''job_title'' (Some 100) False (data ''job_title'');
          (e8, bi) = clean_char ''bio'' (Some 500) False (data ''bio'');
          (e9, pic) = clean_image ''profile_picture'' (files ''profile_picture'')
                        (profile_picture instance);
          e10 = (if e1 = [] \<and> list_ex (\<lambda>r. email r = em \<and> pk r \<noteq> pk instance) (db s)
                 then [Message ''A user with this email already exists.''] else [])
      in (e1 @ e2 @ e3 @ e4 @ e5 @ e6 @ e7 @ e8 @ e9 @ e10,
          instance\<lparr>email := em, first_name := fn, last_name := ln, role := ro,
                   is_active := ac, phone := ph, department := de, job_title := jo,
                   bio := bi, profile_picture := pic\<rparr>))"

subsection \<open>Query sets and the paginator\<close>

text \<open>
  The columns of the users table. \<^verbatim>\<open>order_by\<close> resolves a key to a column: an
  optional \<^verbatim>\<open>-\<close> for descending order, then the name of a column (\<^verbatim>\<open>pk\<close> is the
  key column). A name that resolves to nothing raises FieldError. Keys that are not
  columns of this table (the random order \<^verbatim>\<open>?\<close>, relations that other applications
  add) are not represented: the model treats them like any name that does not resolve.
\<close>

datatype column =
  C_id | C_password | C_last_login | C_is_superuser | C_email | C_first_name | C_last_name
  | C_role | C_is_active | C_is_staff | C_phone | C_department | C_job_title
  | C_profile_picture | C_bio | C_date_joined | C_updated_at

definition column_of_name :: "string \<Rightarrow> column option" where
  "column_of_name =
     map_of [(''id'', C_id), (''pk'', C_id), (''password'', C_password),
       (''last_login'', C_last_login), (''is_superuser'', C_is_superuser),
       (''email'', C_email), (''first_name'', C_first_name), (''last_name'', C_last_name),
       (''role'', C_role), (''is_active'', C_is_active), (''is_staff'', C_is_staff),
       (''phone'', C_phone), (''department'', C_department), (''job_title'', C_job_title),
       (''profile_picture'', C_profile_picture), (''bio'', C_bio),
       (''date_joined'', C_date_joined), (''updated_at'', C_updated_at)]"

text \<open>
  Rows in ascending order of a column: text in byte order, \<open>False\<close> before \<open>True\<close>,
  NULL first. The order among rows that agree on the column is the database's choice;
  here it is the order of a stable sort.
\<close>

fun sort_by :: "column \<Rightarrow> User list \<Rightarrow> User list" where
  "sort_by C_id rows = sort_key pk rows"
| "sort_by C_password rows = sort_key password rows"
| "sort_by C_last_login rows = sort_key last_login rows"
| "sort_by C_is_superuser rows = sort_key is_superuser rows"
| "sort_by C_email rows = sort_key email rows"
| "sort_by C_first_name rows = sort_key first_name rows"
| "sort_by C_last_name rows = sort_key last_name rows"
| "sort_by C_role rows = sort_key role rows"
| "sort_by C_is_active rows = sort_key is_active rows"
| "sort_by C_is_staff rows = sort_key is_staff rows"
| "sort_by C_phone rows = sort_key phone rows"
| "sort_by C_department rows = sort_key department rows"
| "sort_by C_job_title rows = sort_key job_title rows"
| "sort_by C_profile_picture rows = sort_key profile_picture rows"
| "sort_by C_bio rows = sort_key bio rows"
| "sort_by C_date_joined rows = sort_key date_joined rows"
| "sort_by C_updated_at rows = sort_key updated_at rows"

definition order_by :: "string \<Rightarrow> User list \<Rightarrow> exn + User list" where
  "order_by key rows =
     (let descending = startswith key ''-'';
          name = (if descending then tl key else key)
      in case column_of_name name of
           None \<Rightarrow> Inl FieldError
         | Some c \<Rightarrow> Inr (if descending then rev (sort_by c rows) else sort_by c rows))"

text \<open>
  Python's \<^verbatim>\<open>int\<close> of a text: white space around it, a sign, and decimal digits, with
  single underscores between digits.
\<close>

definition is_digit :: "char \<Rightarrow> bool" where
  "is_digit c = (c \<in> set ''0123456789'')"

definition digit_val :: "char \<Rightarrow> nat" where
  "digit_val c = of_char c - 48"

fun digits_value :: "nat \<Rightarrow> string \<Rightarrow> nat option" where
  "digits_value acc [] = Some acc"
| "digits_value acc [c] = (if is_digit c then Some (10 * acc + digit_val c) else None)"
| "digits_value acc (c # d # ds) =
     (if is_digit c then digits_value (10 * acc + digit_val c) (d # ds)
      else if c = CHR ''_'' \<and> is_digit d then digits_value (10 * acc + digit_val d) ds
      else None)"

definition py_nat :: "string \<Rightarrow> nat option" where
  "py_nat t =
     (case t of [] \<Rightarrow> None | c # cs \<Rightarrow> if is_digit c then digits_value (digit_val c) cs else None)"

definition py_int :: "string \<Rightarrow> int option" where
  "py_int t =
     (case strip t of
        [] \<Rightarrow> None
      | c # cs \<Rightarrow>
          if c = CHR ''-'' then map_option (\<lambda>n. - int n) (py_nat cs)
          else if c = CHR ''+'' then map_option int (py_nat cs)
          else map_option int (py_nat (c # cs)))"

text \<open>
  The framework's \<^verbatim>\<open>Paginator\<close>, with no orphans and an empty first page allowed.
\<close>

datatype page_error = PageNotAnInteger | EmptyPage

definition Paginator_num_pages :: "nat \<Rightarrow> nat \<Rightarrow> nat" where
  "Paginator_num_pages hits per = (max 1 hits + per - 1) div per"

definition validate_number :: "nat \<Rightarrow> string option \<Rightarrow> page_error + nat" where
  "validate_number npages number_arg =
     (case (case number_arg of None \<Rightarrow> None | Some t \<Rightarrow> py_int t) of
        None \<Rightarrow> Inl PageNotAnInteger
      | Some n \<Rightarrow>
          if n < 1 then Inl EmptyPage
          else if int npages < n then Inl EmptyPage
          else Inr (nat n))"

definition get_page :: "User list \<Rightarrow> nat \<Rightarrow> string option \<Rightarrow> page" where
  "get_page objs per number_arg =
     (let npages = Paginator_num_pages (length objs) per;
          n = (case validate_number npages number_arg of
                 Inl PageNotAnInteger \<Rightarrow> 1
               | Inl EmptyPage \<Rightarrow> npages
               | Inr k \<Rightarrow> k);
          bottom = (n - 1) * per;
          top = (if length objs \<le> bottom + per then length objs else bottom + per)
      in \<lparr>object_list = take (top - bottom) (drop bottom objs), number = n,
          num_pages = npages, per_page = per, all_objects = objs\<rparr>)"

subsection \<open>Views: \<^verbatim>\<open>accounts/views.py\<close>\<close>






definition user_list_body :: view where
  "user_list_body request s =
     (let users = db s;
          search = get_param (GET request) ''search'' [];
          users = (if search \<noteq> [] then
                     filter (\<lambda>u. icontains (email u) search \<or> icontains (first_name u) search
                                \<or> icontains (last_name u) search
                                \<or> icontains (department u) search) users
                   else users);
          role_filter = get_param (GET request) ''role'' [];
          users = (if role_filter \<noteq> [] then filter (\<lambda>u. role u = role_filter) users else users);
          status = get_param (GET request) ''status'' [];
          users = (if status = ''active'' then filter (\<lambda>u. is_active u) users
                   else if status = ''inactive'' then filter (\<lambda>u. \<not> is_active u) users
                   else users);
          ordering = get_param (GET request) ''ordering'' ''-date_joined''
      in case order_by ordering users of
           Inl e \<Rightarrow> (Raised e, s)
         | Inr users \<Rightarrow>
             (Render ''accounts/user_list.html''
                (User_list (get_page users 10 (GET request ''page'')) search role_filter status
                   ordering (length (db s)) (length (filter (\<lambda>u. is_active u) (db s)))
                   (length (filter (\<lambda>u. \<not> is_active u) (db s)))),
              s))"

definition user_list :: view where
  "user_list = admin_required user_list_body"



definition user_detail_body :: "nat \<Rightarrow> view" where
  "user_detail_body k request s =
     (case get_by_pk (db s) k of
        None \<Rightarrow> (Not_found, s)
      | Some u \<Rightarrow> (Render ''accounts/user_detail.html'' (User_obj u), s))"

definition user_detail :: "nat \<Rightarrow> view" where
  "user_detail k = admin_required (user_detail_body k)"

definition user_update_body :: "framework \<Rightarrow> nat \<Rightarrow> view" where
  "user_update_body fw k request s =
     (case get_by_pk (db s) k of
        None \<Rightarrow> (Not_found, s)
      | Some u \<Rightarrow>
          if req_method request = ''POST'' then
            (let (errors, instance) = AdminUserUpdateForm fw s (POST request) (FILES request) u in
             if errors = [] then
               (case save instance s of
                  Inl e \<Rightarrow> (Raised e, s)
                | Inr s' \<Rightarrow>
                    (Redirect ''accounts:user_list'',
                     add_message SUCCESS
                       (''User '' @ email instance @ '' updated successfully.'') s'))
             else (Render ''accounts/user_form.html'' (Form_errors errors), s))
          else (Render ''accounts/user_form.html'' (User_obj u), s))"

definition user_update :: "framework \<Rightarrow> nat \<Rightarrow> view" where
  "user_update fw k = admin_required (user_update_body fw k)"

text \<open>\<^verbatim>\<open>user == request.user\<close>: two instances are equal when their keys are.\<close>

definition is_request_user :: "User \<Rightarrow> request \<Rightarrow> bool" where
  "is_request_user u request = (case request_user request of None \<Rightarrow> False | Some a \<Rightarrow> pk u = pk a)"

definition user_delete_body :: "nat \<Rightarrow> view" where
  "user_delete_body k request s =
     (case get_by_pk (db s) k of
        None \<Rightarrow> (Not_found, s)
      | Some u \<Rightarrow>
          if is_request_user u request
          then (Redirect ''accounts:user_list'',
                add_message ERROR ''You cannot delete your own account.'' s)
          else (Redirect ''accounts:user_list'',
                add_message SUCCESS (''User '' @ email u @ '' deleted successfully.'')
                  (delete u s)))"

definition user_delete :: "nat \<Rightarrow> view" where
  "user_delete k = admin_required (require_POST (user_delete_body k))"

definition user_toggle_status_body :: "nat \<Rightarrow> view" where
  "user_toggle_status_body k request s =
     (case get_by_pk (db s) k of
        None \<Rightarrow> (Not_found, s)
      | Some u \<Rightarrow>
          if is_request_user u request
          then (Redirect ''accounts:user_list'',
                add_message ERROR ''You cannot deactivate your own account.'' s)
          else
            let u' = u\<lparr>is_active := \<not> is_active u\<rparr>;
                status = (if is_active u' then ''activated'' else ''deactivated'')
            in (case save u' s of
                  Inl e \<Rightarrow> (Raised e, s)
                | Inr s' \<Rightarrow>
                    (Redirect ''accounts:user_list'',
                     add_message SUCCESS
                       (''User '' @ email u' @ '' has been '' @ status @ ''.'') s')))"

definition user_toggle_status :: "nat \<Rightarrow> view" where
  "user_toggle_status k = admin_required (require_POST (user_toggle_status_body k))"



subsection \<open>URL configuration: \<^verbatim>\<open>staffly/urls.py\<close>, \<^verbatim>\<open>accounts/urls.py\<close>, \<^verbatim>\<open>dashboard/urls.py\<close>\<close>

text \<open>
  The routes of the two applications, by their URL names. The project mounts the
  accounts routes under \<^verbatim>\<open>accounts/\<close> and the dashboard routes under
  \<^verbatim>\<open>dashboard/\<close>; the \<^verbatim>\<open>int\<close> converter of a route matches one or more digits.
  (The framework's admin site and the static files are not routes of the applications.)
\<close>

datatype route =
  Home | Login | Logout | User_list_route | User_create | User_detail nat | User_update nat
  | User_delete nat | User_toggle_status nat | Profile | Profile_update | Password_change
  | Dashboard_router | Dashboard_admin | Dashboard_staff | Dashboard_user

text \<open>\<^verbatim>\<open>str.split(sep)\<close>.\<close>

fun split_on :: "char \<Rightarrow> string \<Rightarrow> string list" where
  "split_on c [] = [[]]"
| "split_on c (x # xs) =
     (if x = c then [] # split_on c xs
      else case split_on c xs of [] \<Rightarrow> [[x]] | p # ps \<Rightarrow> (x # p) # ps)"

definition int_converter :: "string \<Rightarrow> nat option" where
  "int_converter t = (if t \<noteq> [] \<and> list_all is_digit t then digits_value 0 t else None)"

definition accounts_urlpatterns :: "string \<Rightarrow> route option" where
  "accounts_urlpatterns rest =
     (if rest = ''login/'' then Some Login
      else if rest = ''logout/'' then Some Logout
      else if rest = ''users/'' then Some User_list_route
      else if rest = ''users/create/'' then Some User_create
      else if rest = ''profile/'' then Some Profile
      else if rest = ''profile/edit/'' then Some Profile_update
      else if rest = ''profile/password/'' then Some Password_change
      else if startswith rest ''users/'' then
        (case split_on CHR ''/'' (drop 6 rest) of
           [k, e] \<Rightarrow> if e = [] then map_option User_detail (int_converter k) else None
         | [k, a, e] \<Rightarrow>
             if e \<noteq> [] then None
             else if a = ''edit'' then map_option User_update (int_converter k)
             else if a = ''delete'' then map_option User_delete (int_converter k)
             else if a = ''toggle-status'' then map_option User_toggle_status (int_converter k)
             else None
         | _ \<Rightarrow> None)
      else None)"

definition dashboard_urlpatterns :: "string \<Rightarrow> route option" where
  "dashboard_urlpatterns rest =
     (if rest = [] then Some Dashboard_router
      else if rest = ''admin/'' then Some Dashboard_admin
      else if rest = ''staff/'' then Some Dashboard_staff
      else if rest = ''user/'' then Some Dashboard_user
      else None)"

definition urlpatterns :: "string \<Rightarrow> route option" where
  "urlpatterns p =
     (if p = ''/'' then Some Home
      else if startswith p ''/accounts/'' then accounts_urlpatterns (drop 10 p)
      else if startswith p ''/dashboard/'' then dashboard_urlpatterns (drop 11 p)
      else None)"


subsection \<open>The directory query, in the words of the specification\<close>





subsection \<open>The users table as the database keeps it\<close>

text \<open>
  The constraints of the table: the primary key is unique, the e-mail is unique (as
  texts are equal), and no key is above the last one handed out.
\<close>

definition table_inv :: "state \<Rightarrow> bool" where
  "table_inv s =
     (distinct (map pk (db s)) \<and> distinct (map email (db s))
      \<and> list_all (\<lambda>r. pk r \<le> pk_seq s) (db s))"

subsection \<open>Example data\<close>

text \<open>
  A small installation: a hasher that stores the password behind a prefix, an e-mail
  check that asks for an \<^verbatim>\<open>@\<close>, the default backend, and three users.
\<close>

definition example_framework :: framework where
  "example_framework =
     \<lparr>make_password = (\<lambda>p. case p of None \<Rightarrow> ''!'' | Some r \<Rightarrow> ''plain:'' @ r),
      check_password = (\<lambda>r encoded. encoded = ''plain:'' @ r),
      valid_email = (\<lambda>e. CHR ''@'' \<in> set e),
      inactive_may_authenticate = False\<rparr>"

definition alice :: User where
  "alice = \<lparr>pk = 1, password = ''plain:wonderland'', last_login = None, is_superuser = True,
     email = ''alice@staffly.test'', first_name = ''Alice'', last_name = ''Liddell'',
     role = ''ADMIN'', is_active = True, is_staff = True, phone = [], department = ''IT'',
     job_title = [], profile_picture = None, bio = [], date_joined = 100, updated_at = 100\<rparr>"

definition bob :: User where
  "bob = \<lparr>pk = 2, password = ''plain:builder1'', last_login = None, is_superuser = False,
     email = ''bob@staffly.test'', first_name = ''Bob'', last_name = [],
     role = ''USER'', is_active = True, is_staff = False, phone = [], department = ''Sales'',
     job_title = [], profile_picture = None, bio = [], date_joined = 200, updated_at = 200\<rparr>"

definition carol :: User where
  "carol = \<lparr>pk = 3, password = ''plain:carols12'', last_login = None, is_superuser = False,
     email = ''carol@staffly.test'', first_name = [], last_name = [],
     role = ''STAFF'', is_active = False, is_staff = False, phone = [], department = [],
     job_title = [], profile_picture = None, bio = [], date_joined = 300, updated_at = 300\<rparr>"

definition example_state :: state where
  "example_state = \<lparr>db = [alice, bob, carol], pk_seq = 3, now = 5000, session_auth = None,
     session_expiry = None, messages = []\<rparr>"

definition example_request :: "string \<Rightarrow> string \<Rightarrow> User option \<Rightarrow> request" where
  "example_request m p u = \<lparr>path = p, query_string = [], req_method = m, GET = Map.empty,
     POST = Map.empty, FILES = Map.empty, request_user = u\<rparr>"



definition self_edit_request :: request where
  "self_edit_request = (example_request ''POST'' ''/accounts/users/1/edit/'' (Some alice))
     \<lparr>POST := [''email'' \<mapsto> ''alice@staffly.test'', ''role'' \<mapsto> ''USER'']\<rparr>"

definition seen :: "User \<Rightarrow> int \<Rightarrow> User" where
  "seen u t = u\<lparr>last_login := Some t\<rparr>"

definition example_state_at :: "int \<Rightarrow> User list \<Rightarrow> state" where
  "example_state_at t rows = example_state\<lparr>db := rows, now := t\<rparr>"

definition not_found_view :: view where
  "not_found_view request s = (Not_found, s)"

definition toggle_request :: request where
  "toggle_request = example_request ''POST'' ''/accounts/users/2/toggle-status/'' (Some alice)"





section \<open>Properties\<close>

subsection \<open>Tables and keys\<close>



lemma get_by_pk_member: "get_by_pk rows k = Some u \<Longrightarrow> u \<in> set rows \<and> pk u = k"
  by (auto simp: get_by_pk_def find_Some_iff)


lemma list_ex_get_by_pk: "get_by_pk rows k = Some u \<Longrightarrow> list_ex (\<lambda>r. pk r = k) rows"
  by (auto simp: get_by_pk_def find_Some_iff list_ex_iff)

lemma get_by_pk_map_same:
  "get_by_pk rows k = Some u \<Longrightarrow> pk (f u) = k \<Longrightarrow>
   get_by_pk (map (\<lambda>r. if pk r = k then f r else r) rows) k = Some (f u)"
  unfolding get_by_pk_def by (induction rows) (auto split: if_splits)

lemma get_by_pk_map_other:
  "j \<noteq> k \<Longrightarrow> (\<And>r. pk r = k \<Longrightarrow> pk (f r) = k) \<Longrightarrow>
   get_by_pk (map (\<lambda>r. if pk r = k then f r else r) rows) j = get_by_pk rows j"
  unfolding get_by_pk_def by (induction rows) auto

lemma save_last_login_row:
  "get_by_pk (db s) (pk u) = Some r \<Longrightarrow>
   get_by_pk (db (save_last_login u s)) (pk u) = Some (r\<lparr>last_login := last_login u\<rparr>)"
  using get_by_pk_map_same [of "db s" "pk u" r "\<lambda>r. r\<lparr>last_login := last_login u\<rparr>"]
  by (simp add: save_last_login_def get_by_pk_member)

lemma save_last_login_others:
  "j \<noteq> pk u \<Longrightarrow> get_by_pk (db (save_last_login u s)) j = get_by_pk (db s) j"
  using get_by_pk_map_other [of j "pk u" "\<lambda>r. r\<lparr>last_login := last_login u\<rparr>" "db s"]
  by (simp add: save_last_login_def)

lemma update_row_row:
  "get_by_pk (db s) (pk u) = Some r \<Longrightarrow> get_by_pk (db (update_row u s)) (pk u) = Some u"
  using get_by_pk_map_same [of "db s" "pk u" r "\<lambda>_. u"]
  by (simp add: update_row_def)

lemma update_row_others:
  "j \<noteq> pk u \<Longrightarrow> get_by_pk (db (update_row u s)) j = get_by_pk (db s) j"
  using get_by_pk_map_other [of j "pk u" "\<lambda>_. u" "db s"]
  by (simp add: update_row_def)

lemma update_row_frame:
  "now (update_row u s) = now s" "pk_seq (update_row u s) = pk_seq s"
  "session_auth (update_row u s) = session_auth s"
  "session_expiry (update_row u s) = session_expiry s"
  "messages (update_row u s) = messages s"
  by (simp_all add: update_row_def)


subsection \<open>The table constraints\<close>

lemma table_inv_add_message [simp]: "table_inv (add_message l m s) = table_inv s"
  by (simp add: table_inv_def add_message_def)


lemma distinct_email_replace:
  "distinct (map pk rows) \<Longrightarrow> distinct (map email rows) \<Longrightarrow> pk u = k \<Longrightarrow>
   \<forall>r\<in>set rows. email r = email u \<longrightarrow> pk r = k \<Longrightarrow>
   distinct (map email (map (\<lambda>r. if pk r = k then u else r) rows))"
proof (induction rows)
  case Nil
  then show ?case by simp
next
  case (Cons r rows)
  show ?case
  proof (cases "pk r = k")
    case True
    then have none: "\<forall>r'\<in>set rows. pk r' \<noteq> k"
      using Cons.prems(1) by (auto simp: image_iff)
    then have same: "map (\<lambda>r. if pk r = k then u else r) rows = rows"
      by (simp add: map_idI)
    have "email u \<notin> email ` set rows" using none Cons.prems(4) by auto
    then show ?thesis using True same Cons.prems(2) by simp
  next
    case False
    have ih: "distinct (map email (map (\<lambda>r. if pk r = k then u else r) rows))"
      using Cons by simp
    have "email r \<noteq> email u" using False Cons.prems(4) by auto
    moreover have "email r \<notin> email ` set rows" using Cons.prems(2) by auto
    ultimately have notin:
        "email r \<notin> set (map email (map (\<lambda>r. if pk r = k then u else r) rows))"
      by (auto split: if_splits)
    have "map email (map (\<lambda>r. if pk r = k then u else r) (r # rows)) =
        email r # map email (map (\<lambda>r. if pk r = k then u else r) rows)"
      using False by simp
    then show ?thesis using notin ih by (simp only: distinct.simps simp_thms)
  qed
qed


lemma same_email_same_row:
  "table_inv s \<Longrightarrow> get_by_pk (db s) k = Some u \<Longrightarrow>
   \<forall>r'\<in>set (db s). email r' = email u \<longrightarrow> pk r' = pk u"
  using get_by_pk_member [of "db s" k u]
  by (auto simp: table_inv_def distinct_map dest: inj_onD)


lemma save_stored:
  assumes row: "get_by_pk (db s) (pk u) = Some r"
      and free: "\<forall>r'\<in>set (db s). email r' = email u \<longrightarrow> pk r' = pk u"
  shows "save u s = Inr (update_row (u\<lparr>updated_at := now s\<rparr>) s)"
proof -
  have "\<not> list_ex (\<lambda>r. email r = email u \<and> pk r \<noteq> pk u) (db s)"
    using free by (auto simp: list_ex_iff)
  then show ?thesis
    using list_ex_get_by_pk [OF row] by (simp add: save_def Let_def)
qed

lemma table_inv_update_row:
  assumes inv: "table_inv s"
      and free: "\<forall>r'\<in>set (db s). email r' = email u \<longrightarrow> pk r' = pk u"
  shows "table_inv (update_row u s)"
proof -
  have rows: "db (update_row u s) = map (\<lambda>r. if pk r = pk u then u else r) (db s)"
    by (simp add: update_row_def)
  have keys: "map pk (db (update_row u s)) = map pk (db s)"
    by (simp add: rows)
  have emails: "distinct (map email (db (update_row u s)))"
    using distinct_email_replace [of "db s" u "pk u"] inv free
    by (simp add: rows table_inv_def)
  have "set (map pk (db (update_row u s))) = set (map pk (db s))"
    using keys by simp
  then have "\<forall>k\<in>pk ` set (db (update_row u s)). k \<le> pk_seq s"
    using inv by (simp add: table_inv_def list_all_iff)
  then have "list_all (\<lambda>r. pk r \<le> pk_seq (update_row u s)) (db (update_row u s))"
    by (simp add: list_all_iff update_row_frame)
  then show ?thesis
    using inv keys emails by (simp add: table_inv_def)
qed


lemma table_inv_clock [simp]: "table_inv (s\<lparr>now := t\<rparr>) = table_inv s"
  by (simp add: table_inv_def)

subsection \<open>The admin guard\<close>

lemma admin_required_cases:
  "admin_required view_func request s =
     (case request_user request of
        None \<Rightarrow> (Redirect_to_login (get_full_path request), s)
      | Some u \<Rightarrow>
          if role u = ''ADMIN'' then view_func request s
          else (Redirect ''dashboard:router'',
                add_message ERROR ''Administrator access required.'' s))"
  by (simp add: admin_required_def login_required_def user_role_def split: option.splits)




subsection \<open>Login\<close>






subsection \<open>The last-login throttle\<close>

text \<open>
  Claim C6. On a request of an authenticated user whose instance is the stored row: when
  the last-login time is absent or more than one hour before the current time, the
  middleware sets it to the current time, on the request's user and in the stored row,
  and leaves every other row as it was; when it is at most one hour old, the request and
  the state reach the next handler unchanged. In particular a request ten minutes after
  the recorded time changes nothing, and a request 61 minutes after it records the
  current time.
\<close>

theorem last_login_throttle:
  assumes auth: "request_user request = Some u"
      and row: "get_by_pk (db s) (pk u) = Some u"
  shows "(last_login u = None \<or> (\<exists>t. last_login u = Some t \<and> timedelta_hours 1 < now s - t) \<longrightarrow>
            (\<exists>s'. UpdateLastLoginMiddleware get_response request s =
                     get_response (request\<lparr>request_user := Some (u\<lparr>last_login := Some (now s)\<rparr>)\<rparr>) s'
                 \<and> get_by_pk (db s') (pk u) = Some (u\<lparr>last_login := Some (now s)\<rparr>)
                 \<and> (\<forall>j. j \<noteq> pk u \<longrightarrow> get_by_pk (db s') j = get_by_pk (db s) j)))
       \<and> ((\<exists>t. last_login u = Some t \<and> now s - t \<le> timedelta_hours 1) \<longrightarrow>
            UpdateLastLoginMiddleware get_response request s = get_response request s)
       \<and> (\<forall>t. last_login u = Some t \<and> now s = t + timedelta_minutes 10 \<longrightarrow>
            UpdateLastLoginMiddleware get_response request s = get_response request s)
       \<and> (\<forall>t. last_login u = Some t \<and> now s = t + timedelta_minutes 61 \<longrightarrow>
            (\<exists>s'. UpdateLastLoginMiddleware get_response request s =
                     get_response (request\<lparr>request_user := Some (u\<lparr>last_login := Some (now s)\<rparr>)\<rparr>) s'
                 \<and> get_by_pk (db s') (pk u) = Some (u\<lparr>last_login := Some (now s)\<rparr>)))"
proof -
  let ?u' = "u\<lparr>last_login := Some (now s)\<rparr>"
  let ?s' = "save_last_login ?u' s"
  have saved: "get_by_pk (db ?s') (pk u) = Some ?u'"
    using save_last_login_row [of s ?u' u] row by simp
  have others: "\<forall>j. j \<noteq> pk u \<longrightarrow> get_by_pk (db ?s') j = get_by_pk (db s) j"
    using save_last_login_others [of _ ?u' s] by simp
  have stale: "UpdateLastLoginMiddleware get_response request s =
      get_response (request\<lparr>request_user := Some ?u'\<rparr>) ?s'"
    if "last_login u = None \<or> (\<exists>t. last_login u = Some t \<and> timedelta_hours 1 < now s - t)"
    using that auth by (auto simp: UpdateLastLoginMiddleware_def)
  have fresh: "UpdateLastLoginMiddleware get_response request s = get_response request s"
    if "last_login u = Some t" "now s - t \<le> timedelta_hours 1" for t
    using that auth by (simp add: UpdateLastLoginMiddleware_def)
  have ten: "now s - t \<le> timedelta_hours 1" if "now s = t + timedelta_minutes 10" for t
    using that by (simp add: timedelta_hours_def timedelta_minutes_def)
  have sixty_one: "timedelta_hours 1 < now s - t" if "now s = t + timedelta_minutes 61" for t
    using that by (simp add: timedelta_hours_def timedelta_minutes_def)
  show ?thesis
    using stale fresh ten sixty_one saved others by blast
qed

theorem last_login_throttle_witness:
  "get_by_pk (db (snd (UpdateLastLoginMiddleware not_found_view
       (example_request ''GET'' ''/dashboard/'' (Some bob)) example_state))) 2 =
     Some (seen bob 5000)
   \<and> UpdateLastLoginMiddleware not_found_view
       (example_request ''GET'' ''/dashboard/'' (Some (seen bob 5000)))
       (example_state_at (5000 + timedelta_minutes 10) [alice, seen bob 5000, carol]) =
     (Not_found, example_state_at (5000 + timedelta_minutes 10) [alice, seen bob 5000, carol])
   \<and> get_by_pk (db (snd (UpdateLastLoginMiddleware not_found_view
       (example_request ''GET'' ''/dashboard/'' (Some (seen bob 5000)))
       (example_state_at (5000 + timedelta_minutes 61) [alice, seen bob 5000, carol])))) 2 =
     Some (seen bob (5000 + timedelta_minutes 61))"
proof -
  note defs = example_request_def example_state_def example_state_at_def seen_def
    not_found_view_def get_by_pk_def alice_def bob_def carol_def
  have first: "get_by_pk (db (snd (UpdateLastLoginMiddleware not_found_view
       (example_request ''GET'' ''/dashboard/'' (Some bob)) example_state))) 2 =
     Some (seen bob 5000)"
    using last_login_throttle [of "example_request ''GET'' ''/dashboard/'' (Some bob)" bob
        example_state not_found_view]
    by (auto simp: defs)
  have second: "UpdateLastLoginMiddleware not_found_view
       (example_request ''GET'' ''/dashboard/'' (Some (seen bob 5000)))
       (example_state_at (5000 + timedelta_minutes 10) [alice, seen bob 5000, carol]) =
     (Not_found, example_state_at (5000 + timedelta_minutes 10) [alice, seen bob 5000, carol])"
    using last_login_throttle [of "example_request ''GET'' ''/dashboard/'' (Some (seen bob 5000))"
        "seen bob 5000"
        "example_state_at (5000 + timedelta_minutes 10) [alice, seen bob 5000, carol]"
        not_found_view]
    by (auto simp: defs)
  have third: "get_by_pk (db (snd (UpdateLastLoginMiddleware not_found_view
       (example_request ''GET'' ''/dashboard/'' (Some (seen bob 5000)))
       (example_state_at (5000 + timedelta_minutes 61) [alice, seen bob 5000, carol])))) 2 =
     Some (seen bob (5000 + timedelta_minutes 61))"
    using last_login_throttle [of "example_request ''GET'' ''/dashboard/'' (Some (seen bob 5000))"
        "seen bob 5000"
        "example_state_at (5000 + timedelta_minutes 61) [alice, seen bob 5000, carol]"
        not_found_view]
    by (auto simp: defs)
  show ?thesis using first second third by simp
qed

subsection \<open>Toggling a user's status\<close>

lemma toggle_once:
  assumes admin: "request_user request = Some a" "role a = ''ADMIN''"
      and post: "req_method request = ''POST''"
      and target: "get_by_pk (db s) k = Some u" "k \<noteq> pk a"
      and inv: "table_inv s"
  shows "user_toggle_status k request s =
           (Redirect ''accounts:user_list'',
            add_message SUCCESS
              (''User '' @ email u @ '' has been ''
                 @ (if is_active u then ''deactivated'' else ''activated'') @ ''.'')
              (update_row (u\<lparr>is_active := \<not> is_active u, updated_at := now s\<rparr>) s))"
proof -
  have k: "pk u = k" using get_by_pk_member [OF target(1)] by simp
  have "save (u\<lparr>is_active := \<not> is_active u\<rparr>) s =
      Inr (update_row (u\<lparr>is_active := \<not> is_active u, updated_at := now s\<rparr>) s)"
    using save_stored [of s "u\<lparr>is_active := \<not> is_active u\<rparr>" u]
      same_email_same_row [OF inv target(1)] target(1) k
    by simp
  then show ?thesis
    using admin post target k
    by (auto simp: user_toggle_status_def admin_required_cases require_POST_def
        user_toggle_status_body_def is_request_user_def Let_def)
qed

text \<open>
  Claim C10. When an ADMIN posts toggle-status for a stored user other than themself
  (the table within its constraints), the response redirects to the user list, the
  target's row afterwards is the old row with the active flag negated (and the
  modification time set by the save): its key, e-mail, password, names, role, staff and
  superuser flags and profile fields are the old ones, and every other row is as before.
  A second toggle, at any later time, gives the target the original active flag again.
\<close>

theorem toggle_status_involution:
  assumes admin: "request_user request = Some a" "role a = ''ADMIN''"
      and post: "req_method request = ''POST''"
      and target: "get_by_pk (db s) k = Some u" "k \<noteq> pk a"
      and inv: "table_inv s"
  shows "\<exists>s'. user_toggle_status k request s = (Redirect ''accounts:user_list'', s')
            \<and> get_by_pk (db s') k = Some (u\<lparr>is_active := \<not> is_active u, updated_at := now s\<rparr>)
            \<and> (\<forall>j. j \<noteq> k \<longrightarrow> get_by_pk (db s') j = get_by_pk (db s) j)
            \<and> (\<forall>t. \<exists>s''. user_toggle_status k request (s'\<lparr>now := t\<rparr>) =
                         (Redirect ''accounts:user_list'', s'')
                    \<and> get_by_pk (db s'') k = Some (u\<lparr>updated_at := t\<rparr>)
                    \<and> (\<forall>j. j \<noteq> k \<longrightarrow> get_by_pk (db s'') j = get_by_pk (db s) j))"
proof -
  let ?u1 = "u\<lparr>is_active := \<not> is_active u, updated_at := now s\<rparr>"
  let ?m1 = "''User '' @ email u @ '' has been ''
                 @ (if is_active u then ''deactivated'' else ''activated'') @ ''.''"
  let ?s1 = "add_message SUCCESS ?m1 (update_row ?u1 s)"
  have k: "pk u = k" using get_by_pk_member [OF target(1)] by simp
  have first: "user_toggle_status k request s = (Redirect ''accounts:user_list'', ?s1)"
    using toggle_once [OF assms] .
  have row1: "get_by_pk (db ?s1) k = Some ?u1"
    using update_row_row [of s ?u1 u] target(1) k by (simp add: add_message_def)
  have others1: "get_by_pk (db ?s1) j = get_by_pk (db s) j" if "j \<noteq> k" for j
    using update_row_others [of j ?u1 s] k that by (simp add: add_message_def)
  have inv1: "table_inv ?s1"
    using table_inv_update_row [OF inv, of ?u1] same_email_same_row [OF inv target(1)] by simp
  have second: "\<exists>s''. user_toggle_status k request (?s1\<lparr>now := t\<rparr>) =
                         (Redirect ''accounts:user_list'', s'')
                    \<and> get_by_pk (db s'') k = Some (u\<lparr>updated_at := t\<rparr>)
                    \<and> (\<forall>j. j \<noteq> k \<longrightarrow> get_by_pk (db s'') j = get_by_pk (db s) j)" for t
  proof -
    let ?s1t = "?s1\<lparr>now := t\<rparr>"
    let ?u2 = "?u1\<lparr>is_active := \<not> is_active ?u1, updated_at := now ?s1t\<rparr>"
    have row1t: "get_by_pk (db ?s1t) k = Some ?u1" using row1 by simp
    have inv1t: "table_inv ?s1t" using inv1 by simp
    have again: "user_toggle_status k request ?s1t =
        (Redirect ''accounts:user_list'',
         add_message SUCCESS (''User '' @ email ?u1 @ '' has been ''
                 @ (if is_active ?u1 then ''deactivated'' else ''activated'') @ ''.'')
           (update_row ?u2 ?s1t))"
      using toggle_once [OF admin post row1t target(2) inv1t] .
    have row2: "get_by_pk (db (update_row ?u2 ?s1t)) k = Some (u\<lparr>updated_at := t\<rparr>)"
      using update_row_row [of ?s1t ?u2 ?u1] row1t k by simp
    have others2: "get_by_pk (db (update_row ?u2 ?s1t)) j = get_by_pk (db s) j"
      if "j \<noteq> k" for j
      using update_row_others [of j ?u2 ?s1t] k that others1 [OF that] by simp
    show ?thesis
      using again row2 others2 by (simp add: add_message_def)
  qed
  show ?thesis
    using first row1 others1 second by (intro exI [of _ ?s1]) simp
qed

theorem toggle_status_involution_witness:
  "map_option is_active
     (get_by_pk (db (snd (user_toggle_status 2 toggle_request example_state))) 2) = Some False
   \<and> map_option role
     (get_by_pk (db (snd (user_toggle_status 2 toggle_request example_state))) 2) = Some ''USER''
   \<and> map_option is_active
     (get_by_pk (db (snd (user_toggle_status 2 toggle_request
        (snd (user_toggle_status 2 toggle_request example_state))))) 2) = Some True"
proof -
  have pre: "request_user toggle_request = Some alice" "role alice = ''ADMIN''"
    "req_method toggle_request = ''POST''" "get_by_pk (db example_state) 2 = Some bob"
    "2 \<noteq> pk alice" "table_inv example_state"
    by (simp_all add: toggle_request_def example_request_def example_state_def get_by_pk_def
        table_inv_def alice_def bob_def carol_def)
  obtain s' where first: "user_toggle_status 2 toggle_request example_state =
        (Redirect ''accounts:user_list'', s')"
      and row: "get_by_pk (db s') 2 =
        Some (bob\<lparr>is_active := \<not> is_active bob, updated_at := now example_state\<rparr>)"
      and again: "\<forall>t. \<exists>s''. user_toggle_status 2 toggle_request (s'\<lparr>now := t\<rparr>) =
                         (Redirect ''accounts:user_list'', s'')
                    \<and> get_by_pk (db s'') 2 = Some (bob\<lparr>updated_at := t\<rparr>)
                    \<and> (\<forall>j. j \<noteq> 2 \<longrightarrow> get_by_pk (db s'') j = get_by_pk (db example_state) j)"
    using toggle_status_involution [OF pre] by blast
  obtain s'' where second: "user_toggle_status 2 toggle_request (s'\<lparr>now := now s'\<rparr>) =
        (Redirect ''accounts:user_list'', s'')"
      and row2: "get_by_pk (db s'') 2 = Some (bob\<lparr>updated_at := now s'\<rparr>)"
    using again by blast
  have "s'\<lparr>now := now s'\<rparr> = s'" by simp
  with second have second': "user_toggle_status 2 toggle_request s' =
        (Redirect ''accounts:user_list'', s'')" by simp
  show ?thesis
    using first row second' row2 by (simp add: bob_def)
qed

subsection \<open>Profile self-update\<close>







subsection \<open>Self-protection\<close>

text \<open>
  Delete and toggle-status refuse the acting ADMIN's own account: an error notice, a
  redirect to the user list, and the table as it was.
\<close>

lemma self_protection:
  assumes admin: "request_user request = Some a" "role a = ''ADMIN''"
      and post: "req_method request = ''POST''"
      and own: "get_by_pk (db s) (pk a) = Some u"
  shows "user_delete (pk a) request s =
           (Redirect ''accounts:user_list'',
            add_message ERROR ''You cannot delete your own account.'' s)"
    and "user_toggle_status (pk a) request s =
           (Redirect ''accounts:user_list'',
            add_message ERROR ''You cannot deactivate your own account.'' s)"
  using assms get_by_pk_member [OF own]
  by (simp_all add: user_delete_def user_toggle_status_def admin_required_cases require_POST_def
      user_delete_body_def user_toggle_status_body_def is_request_user_def)

text \<open>
  Claim C2 does not hold of the admin edit view, which has no such check: an ADMIN who
  posts the edit form of their own account with role USER and the active box unchecked
  is redirected to the user list, and their stored row then has role USER and is
  inactive.
\<close>

theorem admin_edit_demotes_self:
  "request_user self_edit_request = Some alice
   \<and> map_option role (get_by_pk (db example_state) 1) = Some ''ADMIN''
   \<and> map_option is_active (get_by_pk (db example_state) 1) = Some True
   \<and> fst (user_update example_framework 1 self_edit_request example_state) =
       Redirect ''accounts:user_list''
   \<and> map_option role
       (get_by_pk (db (snd (user_update example_framework 1 self_edit_request example_state))) 1)
       = Some ''USER''
   \<and> map_option is_active
       (get_by_pk (db (snd (user_update example_framework 1 self_edit_request example_state))) 1)
       = Some False"
proof -
  have strips: "strip ''alice@staffly.test'' = ''alice@staffly.test''" "strip [] = []"
    by (simp_all add: strip_def is_space_def)
  show ?thesis
    by (simp add: user_update_def admin_required_cases user_update_body_def
        self_edit_request_def example_request_def example_state_def example_framework_def
        AdminUserUpdateForm_def clean_email_def clean_char_def clean_role_def
        clean_checkbox_def clean_image_def or_default_def strips Role_choices_def save_def
        update_row_def
        add_message_def get_by_pk_def alice_def bob_def carol_def)
qed

subsection \<open>The path-pattern guard\<close>

lemma startswith_take: "startswith s p \<Longrightarrow> n \<le> length p \<Longrightarrow> take n s = take n p"
  by (metis startswith_def min.absorb1 take_take)

lemma served_not_guarded:
  assumes "urlpatterns p = Some r"
  shows "\<not> list_ex (startswith p) ADMIN_ONLY_PATTERNS" "\<not> list_ex (startswith p) STAFF_PATTERNS"
proof -
  have "p = ''/'' \<or> startswith p ''/accounts/'' \<or> startswith p ''/dashboard/''"
    using assms by (auto simp: urlpatterns_def split: if_splits)
  then have "take 2 p = ''/'' \<or> take 2 p = ''/a'' \<or> take 2 p = ''/d''"
    using startswith_take [of p "''/accounts/''" 2] startswith_take [of p "''/dashboard/''" 2]
    by auto
  moreover have "take 2 p = ''/u'' \<or> take 2 p = ''/a'' \<and> take 3 p = ''/an''"
    if "list_ex (startswith p) ADMIN_ONLY_PATTERNS"
    using that startswith_take [of p "''/users/''" 2] startswith_take [of p "''/users/create/''" 2]
      startswith_take [of p "''/users/delete/''" 2] startswith_take [of p "''/analytics/''" 2]
      startswith_take [of p "''/analytics/''" 3]
    by (auto simp: ADMIN_ONLY_PATTERNS_def)
  moreover have "take 3 p = ''/ac'' \<or> take 2 p \<noteq> ''/a''"
    using \<open>p = ''/'' \<or> startswith p ''/accounts/'' \<or> startswith p ''/dashboard/''\<close>
      startswith_take [of p "''/accounts/''" 3] startswith_take [of p "''/dashboard/''" 2]
    by auto
  moreover have "take 2 p = ''/s''" if "list_ex (startswith p) STAFF_PATTERNS"
    using that startswith_take [of p "''/staff/''" 2] by (auto simp: STAFF_PATTERNS_def)
  ultimately show "\<not> list_ex (startswith p) ADMIN_ONLY_PATTERNS"
    "\<not> list_ex (startswith p) STAFF_PATTERNS"
    by auto
qed

lemma middleware_passes_served_urls:
  "urlpatterns (path request) = Some r \<Longrightarrow>
   RoleBasedAccessMiddleware get_response request s = get_response request s"
  using served_not_guarded [of "path request" r]
  by (simp add: RoleBasedAccessMiddleware_def split: option.splits)

text \<open>
  Claim C3 does not hold of the code. The patterns of the path-pattern guard are matched
  against the start of the request path, and every route of the applications starts with
  \<^verbatim>\<open>/accounts/\<close> or \<^verbatim>\<open>/dashboard/\<close>: the guard passes every served request
  through (\<open>middleware_passes_served_urls\<close>). At the user list, requested by a user of
  role USER, the guard hands the request on while the decorator guard of the view
  denies it.
\<close>

theorem middleware_admits_non_admin:
  "urlpatterns ''/accounts/users/'' = Some User_list_route
   \<and> (\<forall>get_response.
        RoleBasedAccessMiddleware get_response
          (example_request ''GET'' ''/accounts/users/'' (Some bob)) example_state =
        get_response (example_request ''GET'' ''/accounts/users/'' (Some bob)) example_state)
   \<and> user_list (example_request ''GET'' ''/accounts/users/'' (Some bob)) example_state =
       (Redirect ''dashboard:router'',
        add_message ERROR ''Administrator access required.'' example_state)"
  by (simp add: urlpatterns_def accounts_urlpatterns_def startswith_def
      RoleBasedAccessMiddleware_def PUBLIC_PATTERNS_def ADMIN_ONLY_PATTERNS_def
      STAFF_PATTERNS_def example_request_def user_list_def admin_required_cases bob_def)

subsection \<open>The user directory\<close>






















subsection \<open>Unique e-mails\<close>











end
